theory Spec2Isabelle
  imports Main "HOL-Library.Sublist"
begin

section \<open>Strings of the C++ standard library\<close>

text \<open>
  A \<open>std::string\<close> is a \<open>string\<close> (a list of 8-bit characters). The operations below
  are the ones \<open>plugin.cpp\<close> calls, with the meaning the C++ standard gives them in the
  default "C" locale (the plugin never changes the locale).
\<close>

definition nl :: string where
  "nl = [CHR 0x0A]"

definition tolower :: "char \<Rightarrow> char" where
  \<comment> \<open>\<open>::tolower\<close>: the letters A to Z go to a to z, every other character is kept.\<close>
  "tolower c =
     (if (65::nat) \<le> of_char c \<and> of_char c \<le> (90::nat)
      then char_of (of_char c + (32::nat)) else c)"

definition isspace :: "char \<Rightarrow> bool" where
  \<comment> \<open>\<open>isspace\<close>: space, and the controls \<open>\t \n \v \f \r\<close> (9 to 13).\<close>
  "isspace c = (of_char c = (32::nat) \<or> ((9::nat) \<le> of_char c \<and> of_char c \<le> (13::nat)))"

definition isdigit :: "char \<Rightarrow> bool" where
  "isdigit c = ((48::nat) \<le> of_char c \<and> of_char c \<le> (57::nat))"

fun find_str :: "string \<Rightarrow> string \<Rightarrow> nat option" where
  \<comment> \<open>\<open>s.find(pat)\<close>: the first position where \<open>pat\<close> occurs in \<open>s\<close>; \<open>None\<close> is \<open>npos\<close>.\<close>
  "find_str pat [] = (if pat = [] then Some 0 else None)"
| "find_str pat (c # cs) =
     (if prefix pat (c # cs) then Some 0 else map_option Suc (find_str pat cs))"

fun string_of_nat :: "nat \<Rightarrow> string" where
  \<comment> \<open>The decimal digits of an unsigned value, as \<open>operator<<\<close> and \<open>std::to_string\<close> print it.\<close>
  "string_of_nat n =
     (if n < 10 then [char_of (48 + n)]
      else string_of_nat (n div 10) @ [char_of (48 + n mod 10)])"

declare string_of_nat.simps [simp del]

definition string_of_int :: "int \<Rightarrow> string" where
  "string_of_int i =
     (if i < 0 then CHR ''-'' # string_of_nat (nat (- i)) else string_of_nat (nat i))"

subsection \<open>\<open>std::stoi\<close>\<close>

text \<open>
  \<open>std::stoi(arg)\<close> (base 10, no position argument) calls \<open>strtol\<close>: leading white space
  is skipped, one optional sign is read, then the longest run of decimal digits. No digit
  at all raises \<open>std::invalid_argument\<close>; a value outside the range of \<open>int\<close>
  (32 bits) raises \<open>std::out_of_range\<close>; characters after the digits are ignored.
\<close>

datatype stoi_error = Invalid_argument | Out_of_range

definition INT_MIN :: int where
  "INT_MIN = - 2147483648"

definition INT_MAX :: int where
  "INT_MAX = 2147483647"

definition digits_value :: "string \<Rightarrow> int" where
  "digits_value ds = foldl (\<lambda>v c. 10 * v + (int (of_char c) - 48)) 0 ds"

definition stoi :: "string \<Rightarrow> stoi_error + int" where
  "stoi s =
     (let s1 = dropWhile isspace s;
          neg = (s1 \<noteq> [] \<and> hd s1 = CHR ''-'');
          s2 = (if s1 \<noteq> [] \<and> (hd s1 = CHR ''-'' \<or> hd s1 = CHR ''+'') then tl s1 else s1);
          ds = takeWhile isdigit s2
      in if ds = [] then Inl Invalid_argument
         else let v = (if neg then - digits_value ds else digits_value ds)
              in if v < INT_MIN \<or> INT_MAX < v then Inl Out_of_range else Inr v)"

section \<open>The device record\<close>

record GPUInfo =
  name :: string
  vendor :: string
  driver_version :: string
  pci_id :: string
  index :: int
  is_active :: bool

text \<open>
  \<open>index\<close> is a C++ \<open>int\<close>. It is modelled as a mathematical integer: the counter only
  ever counts the display devices of one machine, and past \<open>INT_MAX\<close> devices the
  increment is undefined in C++, so no model is faithful there.
\<close>

definition new_gpu :: "int \<Rightarrow> GPUInfo" where
  \<comment> \<open>\<open>GPUInfo gpu; gpu.index = gpu_index++; gpu.is_active = (gpu.index == 0);\<close>
      the four strings are default-constructed, that is empty.\<close>
  "new_gpu gpu_index =
     \<lparr>name = [], vendor = [], driver_version = [], pci_id = [],
      index = gpu_index, is_active = (gpu_index = 0)\<rparr>"

section \<open>Vendor lookup\<close>

definition get_vendor_name :: "string \<Rightarrow> string" where
  "get_vendor_name vendor_id =
     (let id = map tolower vendor_id
      in if id = ''0x10de'' \<or> id = ''10de'' then ''NVIDIA''
         else if id = ''0x1002'' \<or> id = ''1002'' then ''AMD''
         else if id = ''0x8086'' \<or> id = ''8086'' then ''Intel''
         else ''Unknown'')"

text \<open>
  The lookup as the specification words it: lower-case the identifier, drop one leading
  \<open>0x\<close> when there is one, and look the rest up in the table
  \<open>10de \<mapsto> NVIDIA, 1002 \<mapsto> AMD, 8086 \<mapsto> Intel\<close>, with \<open>Unknown\<close> for everything else.
\<close>

definition strip_0x :: "string \<Rightarrow> string" where
  "strip_0x s = (if prefix ''0x'' s then drop 2 s else s)"

definition vendor_table :: "string \<Rightarrow> string option" where
  "vendor_table = [''10de'' \<mapsto> ''NVIDIA'', ''1002'' \<mapsto> ''AMD'', ''8086'' \<mapsto> ''Intel'']"

definition vendor_lookup_spec :: "string \<Rightarrow> string" where
  "vendor_lookup_spec vendor_id =
     (case vendor_table (strip_0x (map tolower vendor_id)) of
        Some v \<Rightarrow> v
      | None \<Rightarrow> ''Unknown'')"

section \<open>The Linux enumerator\<close>

text \<open>
  What \<open>detect_gpus_linux\<close> reads. A file is the list of lines that successive
  \<open>std::getline\<close> calls return (none for a file that cannot be opened), or \<open>None\<close> when
  \<open>fs::exists\<close> is false. \<open>drm\<close> is the listing of \<open>/sys/class/drm\<close> in the order the
  directory iterator yields it, or \<open>None\<close> when the directory does not exist. A filesystem
  call that raises ends the enumeration with no record at all; \<open>plugin_run\<close> below takes
  that outcome as an exception of the call \<open>detect_gpus()\<close>.
\<close>

type_synonym text_file = "string list option"

record drm_entry =
  card_name :: string
  uevent :: text_file
  label_file :: text_file
  product_name_file :: text_file
  model_file :: text_file

record linux_fs =
  drm :: "drm_entry list option"
  nvidia_version :: text_file

definition is_card :: "string \<Rightarrow> bool" where
  \<comment> \<open>\<open>card_name.find("card") == 0 && card_name.find("-") == npos\<close>\<close>
  "is_card cname = (find_str ''card'' cname = Some 0 \<and> find_str ''-'' cname = None)"

definition uevent_line :: "string \<Rightarrow> string \<times> string \<Rightarrow> string \<times> string" where
  \<comment> \<open>One round of the \<open>getline\<close> loop over \<open>uevent\<close>, on the pair
      \<open>(gpu.pci_id, vendor_id)\<close>; \<open>device_id\<close> is written but never read.\<close>
  "uevent_line line st =
     (case st of (pci, vendor_id) \<Rightarrow>
        if find_str ''PCI_ID='' line = Some 0 then
          let pci' = drop 7 line
          in (case find_str '':'' pci' of
                Some colon \<Rightarrow> (pci', take colon pci')
              | None \<Rightarrow> (pci', vendor_id))
        else (pci, vendor_id))"

definition read_uevent :: "text_file \<Rightarrow> GPUInfo \<Rightarrow> GPUInfo" where
  \<comment> \<open>Lines 101 to 123: the vendor is assigned only inside \<open>if (fs::exists(uevent_path))\<close>.\<close>
  "read_uevent f gpu =
     (case f of
        None \<Rightarrow> gpu
      | Some lines \<Rightarrow>
          (case fold uevent_line lines (pci_id gpu, []) of
             (pci, vendor_id) \<Rightarrow> gpu\<lparr>pci_id := pci, vendor := get_vendor_name vendor_id\<rparr>))"

fun find_name :: "text_file list \<Rightarrow> string option" where
  \<comment> \<open>The loop over \<open>name_paths\<close>: the first existing file whose first line is read and
      is not empty.\<close>
  "find_name [] = None"
| "find_name (f # fs) =
     (case f of
        None \<Rightarrow> find_name fs
      | Some lines \<Rightarrow>
          (case lines of
             [] \<Rightarrow> find_name fs
           | l # _ \<Rightarrow> if l \<noteq> [] then Some l else find_name fs))"

definition name_paths :: "drm_entry \<Rightarrow> text_file list" where
  "name_paths e = [label_file e, product_name_file e, model_file e]"

definition fallback_name :: "GPUInfo \<Rightarrow> string" where
  \<comment> \<open>Lines 146 to 152.\<close>
  "fallback_name gpu =
     (if pci_id gpu \<noteq> [] then vendor gpu @ '' GPU ['' @ pci_id gpu @ '']''
      else vendor gpu @ '' GPU'')"

definition resolve_name :: "drm_entry \<Rightarrow> GPUInfo \<Rightarrow> GPUInfo" where
  "resolve_name e gpu =
     (case find_name (name_paths e) of
        Some n \<Rightarrow> gpu\<lparr>name := n\<rparr>
      | None \<Rightarrow> gpu\<lparr>name := fallback_name gpu\<rparr>)"

definition first_token :: "string \<Rightarrow> string option" where
  \<comment> \<open>\<open>iss >> version\<close>: skip white space, read up to the next white space; fails when
      nothing is left.\<close>
  "first_token s =
     (let t = takeWhile (\<lambda>c. \<not> isspace c) (dropWhile isspace s)
      in if t = [] then None else Some t)"

definition version_line :: "string \<Rightarrow> string \<Rightarrow> string" where
  \<comment> \<open>One round of the loop over \<open>/proc/driver/nvidia/version\<close>, on \<open>gpu.driver_version\<close>.\<close>
  "version_line line dv =
     (case find_str ''Kernel Module'' line of
        None \<Rightarrow> dv
      | Some pos \<Rightarrow>
          (case first_token (drop (pos + 13) line) of
             Some v \<Rightarrow> v
           | None \<Rightarrow> dv))"

definition read_driver_version :: "text_file \<Rightarrow> GPUInfo \<Rightarrow> GPUInfo" where
  "read_driver_version f gpu =
     (if vendor gpu = ''NVIDIA'' then
        (case f of
           None \<Rightarrow> gpu
         | Some lines \<Rightarrow> gpu\<lparr>driver_version := fold version_line lines (driver_version gpu)\<rparr>)
      else gpu)"

definition linux_gpu :: "linux_fs \<Rightarrow> drm_entry \<Rightarrow> int \<Rightarrow> GPUInfo" where
  \<comment> \<open>The body of the \<open>if\<close> at line 96, for the entry \<open>e\<close> and the counter value taken.\<close>
  "linux_gpu fs e gpu_index =
     read_driver_version (nvidia_version fs)
       (resolve_name e (read_uevent (uevent e) (new_gpu gpu_index)))"

fun scan_drm :: "linux_fs \<Rightarrow> drm_entry list \<Rightarrow> int \<Rightarrow> GPUInfo list \<Rightarrow> GPUInfo list" where
  \<comment> \<open>The \<open>for\<close> loop at line 92, on the state \<open>(gpu_index, gpus)\<close>.\<close>
  "scan_drm fs [] gpu_index gpus = gpus"
| "scan_drm fs (e # es) gpu_index gpus =
     (if is_card (card_name e)
      then scan_drm fs es (gpu_index + 1) (gpus @ [linux_gpu fs e gpu_index])
      else scan_drm fs es gpu_index gpus)"

definition detect_gpus_linux :: "linux_fs \<Rightarrow> GPUInfo list" where
  "detect_gpus_linux fs =
     (case drm fs of
        None \<Rightarrow> []
      | Some entries \<Rightarrow> scan_drm fs entries 0 [])"

section \<open>The Windows enumerator\<close>

text \<open>
  One device of the display class, as the four \<open>SetupDiGetDeviceRegistryPropertyA\<close> calls
  see it: each property is the string the call stores in the buffer, or \<open>None\<close> when the
  call fails. The device set is \<open>None\<close> when \<open>SetupDiGetClassDevs\<close> returns the invalid
  handle.
\<close>

record win_device =
  device_desc :: "string option"
  mfg :: "string option"
  driver :: "string option"
  hardware_id :: "string option"

definition parse_hwid :: "string \<Rightarrow> string option" where
  \<comment> \<open>Lines 227 to 235: \<open>PCI\VEN_XXXX&DEV_XXXX\<close> gives \<open>XXXX:XXXX\<close>.\<close>
  "parse_hwid hwid =
     (case find_str ''VEN_'' hwid of
        None \<Rightarrow> None
      | Some ven_pos \<Rightarrow>
          (case find_str ''DEV_'' hwid of
             None \<Rightarrow> None
           | Some dev_pos \<Rightarrow>
               Some (take 4 (drop (ven_pos + 4) hwid) @ '':'' @ take 4 (drop (dev_pos + 4) hwid))))"

definition windows_gpu :: "win_device \<Rightarrow> int \<Rightarrow> GPUInfo" where
  "windows_gpu d gpu_index =
     (let gpu = new_gpu gpu_index;
          gpu = (case device_desc d of Some b \<Rightarrow> gpu\<lparr>name := b\<rparr> | None \<Rightarrow> gpu);
          gpu = (case mfg d of Some b \<Rightarrow> gpu\<lparr>vendor := b\<rparr> | None \<Rightarrow> gpu);
          gpu = (case driver d of Some b \<Rightarrow> gpu\<lparr>driver_version := b\<rparr> | None \<Rightarrow> gpu)
      in (case hardware_id d of
            None \<Rightarrow> gpu
          | Some hwid \<Rightarrow>
              (case parse_hwid hwid of Some p \<Rightarrow> gpu\<lparr>pci_id := p\<rparr> | None \<Rightarrow> gpu)))"

fun scan_devices :: "win_device list \<Rightarrow> int \<Rightarrow> GPUInfo list \<Rightarrow> GPUInfo list" where
  \<comment> \<open>The \<open>for\<close> loop at line 200, on the state \<open>(gpu_index, gpus)\<close>.\<close>
  "scan_devices [] gpu_index gpus = gpus"
| "scan_devices (d # ds) gpu_index gpus =
     scan_devices ds (gpu_index + 1) (gpus @ [windows_gpu d gpu_index])"

definition detect_gpus_windows :: "win_device list option \<Rightarrow> GPUInfo list" where
  "detect_gpus_windows deviceInfoSet =
     (case deviceInfoSet of
        None \<Rightarrow> []
      | Some devices \<Rightarrow> scan_devices devices 0 [])"

section \<open>The macOS placeholder and the platform switch\<close>

definition detect_gpus_macos :: "GPUInfo list" where
  "detect_gpus_macos =
     [\<lparr>name = ''macOS GPU (detection not implemented)'', vendor = ''Unknown'',
       driver_version = ''N/A'', pci_id = ''N/A'', index = 0, is_active = True\<rparr>]"

datatype host =
    Linux linux_fs
  | Windows "win_device list option"
  | MacOS
  | Other

definition detect_gpus :: "host \<Rightarrow> GPUInfo list" where
  \<comment> \<open>The \<open>PLATFORM_\<close> macros select one enumerator when the plugin is compiled; the
      host carries the platform and what its enumerator reads.\<close>
  "detect_gpus h =
     (case h of
        Linux fs \<Rightarrow> detect_gpus_linux fs
      | Windows deviceInfoSet \<Rightarrow> detect_gpus_windows deviceInfoSet
      | MacOS \<Rightarrow> detect_gpus_macos
      | Other \<Rightarrow> [])"

section \<open>The presenter\<close>

text \<open>
  Each printing function is the text it appends to \<open>std::cout\<close>. The colour codes are
  the escape sequences of namespace \<open>Color\<close>.
\<close>

definition Color_RESET :: string where "Color_RESET = CHR 0x1B # ''[0m''"
definition Color_BOLD :: string where "Color_BOLD = CHR 0x1B # ''[1m''"
definition Color_CYAN :: string where "Color_CYAN = CHR 0x1B # ''[36m''"
definition Color_GREEN :: string where "Color_GREEN = CHR 0x1B # ''[32m''"
definition Color_YELLOW :: string where "Color_YELLOW = CHR 0x1B # ''[33m''"
definition Color_DIM :: string where "Color_DIM = CHR 0x1B # ''[2m''"

definition print_header :: "string \<Rightarrow> string" where
  "print_header text =
     nl @ Color_BOLD @ Color_CYAN @ text @ Color_RESET @ nl @ replicate 50 (CHR ''='') @ nl"

definition print_field :: "string \<Rightarrow> string \<Rightarrow> string" where
  "print_field key val = ''  '' @ Color_GREEN @ key @ '': '' @ Color_RESET @ val @ nl"

definition display_gpu :: "GPUInfo \<Rightarrow> bool \<Rightarrow> string" where
  "display_gpu gpu brief =
     (if brief then
        Color_BOLD @ ''GPU '' @ string_of_int (index gpu) @ Color_RESET
        @ (if is_active gpu then '' '' @ Color_GREEN @ ''(Active)'' @ Color_RESET else [])
        @ nl
        @ print_field ''Name'' (name gpu)
        @ print_field ''Vendor'' (vendor gpu)
        @ (if pci_id gpu \<noteq> [] then print_field ''PCI ID'' (pci_id gpu) else [])
      else
        print_header (''GPU '' @ string_of_int (index gpu)
                      @ (if is_active gpu then '' (Active)'' else []))
        @ print_field ''Name'' (name gpu)
        @ print_field ''Vendor'' (vendor gpu)
        @ (if driver_version gpu \<noteq> [] \<and> driver_version gpu \<noteq> ''N/A''
           then print_field ''Driver Version'' (driver_version gpu) else [])
        @ (if pci_id gpu \<noteq> [] \<and> pci_id gpu \<noteq> ''N/A''
           then print_field ''PCI ID'' (pci_id gpu) else []))"

fun display_each :: "GPUInfo list \<Rightarrow> string" where
  \<comment> \<open>The loop of \<open>display_all_gpus\<close>: a blank line after every record but the last.\<close>
  "display_each [] = []"
| "display_each [gpu] = display_gpu gpu True"
| "display_each (gpu # gpus) = display_gpu gpu True @ nl @ display_each gpus"

definition display_all_gpus :: "GPUInfo list \<Rightarrow> string" where
  "display_all_gpus gpus =
     (if gpus = [] then Color_YELLOW @ ''No GPUs detected.'' @ Color_RESET @ nl
      else print_header (''All GPUs ('' @ string_of_nat (length gpus) @ '' detected)'')
           @ display_each gpus)"

definition display_help :: string where
  "display_help =
     Color_BOLD @ ''GPU Plugin for whatsmycli'' @ Color_RESET @ nl @ nl
     @ ''Usage:'' @ nl
     @ ''  whatsmy gpu           '' @ Color_DIM @ ''# Show active/default GPU'' @ Color_RESET @ nl
     @ ''  whatsmy gpu all       '' @ Color_DIM @ ''# Show all GPUs'' @ Color_RESET @ nl
     @ ''  whatsmy gpu <index>   '' @ Color_DIM @ ''# Show specific GPU by index'' @ Color_RESET @ nl
     @ ''  whatsmy gpu help      '' @ Color_DIM @ ''# Show this help'' @ Color_RESET @ nl"

section \<open>The entry point\<close>

text \<open>
  A run of \<open>plugin_run\<close> is what it writes to the two streams and the integer it returns.
  \<open>argc\<close> is the length of \<open>argv\<close>, as the caller of an entry point guarantees. The second
  argument is the outcome of the call \<open>detect_gpus()\<close> at line 334: the vector it
  returns, or the exception that leaves it (the \<open>std::filesystem\<close> calls of the Linux
  enumerator raise on an access error).
\<close>

record run =
  stdout :: string
  stderr :: string
  exit_code :: int

datatype exn =
    Std_exception string  \<comment> \<open>a \<open>std::exception\<close>, with its \<open>what()\<close>\<close>
  | Unknown_exception

definition success :: "string \<Rightarrow> run" where
  "success text = \<lparr>stdout = text, stderr = [], exit_code = 0\<rparr>"

definition failure :: "string \<Rightarrow> run" where
  "failure text = \<lparr>stdout = [], stderr = text, exit_code = 1\<rparr>"

definition no_gpus_warning :: string where
  "no_gpus_warning =
     Color_YELLOW @ ''Warning: No GPUs detected.'' @ Color_RESET @ nl
     @ ''This could mean:'' @ nl
     @ ''  - No GPU is present in the system'' @ nl
     @ ''  - GPU drivers are not installed'' @ nl
     @ ''  - Insufficient permissions to access GPU information'' @ nl"

definition usage_hint :: string where
  "usage_hint = ''Use '' @ [CHR 0x27] @ ''whatsmy gpu help'' @ [CHR 0x27] @ '' for usage information.'' @ nl"

definition out_of_range_error :: "int \<Rightarrow> nat \<Rightarrow> string" where
  \<comment> \<open>Lines 371 and 372; \<open>n\<close> is \<open>gpus.size()\<close>, which is not zero there.\<close>
  "out_of_range_error i n =
     Color_YELLOW @ ''Error: GPU index '' @ string_of_int i @ '' out of range.'' @ Color_RESET @ nl
     @ ''Available GPUs: 0-'' @ string_of_nat (n - 1) @ nl"

definition invalid_argument_error :: "string \<Rightarrow> string" where
  "invalid_argument_error arg =
     Color_YELLOW @ ''Error: Invalid argument '' @ [CHR 0x27] @ arg @ [CHR 0x27] @ ''.''
     @ Color_RESET @ nl @ usage_hint"

definition too_many_arguments_error :: string where
  "too_many_arguments_error =
     Color_YELLOW @ ''Error: Too many arguments.'' @ Color_RESET @ nl @ usage_hint"

definition exception_error :: "exn \<Rightarrow> string" where
  "exception_error e =
     (case e of
        Std_exception what \<Rightarrow> Color_YELLOW @ ''Error: '' @ what @ Color_RESET @ nl
      | Unknown_exception \<Rightarrow>
          Color_YELLOW @ ''Error: Unknown exception occurred.'' @ Color_RESET @ nl)"

definition show_index :: "string \<Rightarrow> GPUInfo list \<Rightarrow> run" where
  \<comment> \<open>The inner \<open>try\<close> block, lines 368 to 381. \<open>static_cast<int>(gpus.size())\<close> is the
      size itself: the vector holds fewer than \<open>2^31\<close> records.\<close>
  "show_index arg gpus =
     (case stoi arg of
        Inl e \<Rightarrow> failure (invalid_argument_error arg)
      | Inr i \<Rightarrow>
          if i < 0 \<or> i \<ge> int (length gpus) then failure (out_of_range_error i (length gpus))
          else success (display_gpu (gpus ! nat i) False))"

definition plugin_run :: "string list \<Rightarrow> exn + GPUInfo list \<Rightarrow> run" where
  "plugin_run argv detected =
     (case detected of
        Inl e \<Rightarrow> failure (exception_error e)
      | Inr gpus \<Rightarrow>
          if gpus = [] then failure no_gpus_warning
          else if length argv = 1 then
            (case find is_active gpus of
               Some gpu \<Rightarrow> success (display_gpu gpu False)
             | None \<Rightarrow> success (display_gpu (gpus ! 0) False))
          else if length argv = 2 then
            (let arg = argv ! 1
             in if arg = ''help'' \<or> arg = ''--help'' \<or> arg = ''-h'' then success display_help
                else if arg = ''all'' then success (display_all_gpus gpus)
                else show_index arg gpus)
          else failure too_many_arguments_error)"

section \<open>Notions used to state the properties\<close>

definition cards :: "drm_entry list \<Rightarrow> drm_entry list" where
  \<comment> \<open>The entries of the listing that pass the test at line 96, in listing order.\<close>
  "cards entries = filter (\<lambda>e. is_card (card_name e)) entries"

definition vendor_names :: "string set" where
  "vendor_names = {''NVIDIA'', ''AMD'', ''Intel'', ''Unknown''}"

definition keyword_args :: "string set" where
  "keyword_args = {''help'', ''--help'', ''-h'', ''all''}"

definition success_path :: "string list \<Rightarrow> exn + GPUInfo list \<Rightarrow> bool" where
  \<comment> \<open>The rows of the argument table that show something: at least one record, and
      no argument, a keyword, or an index inside the range.\<close>
  "success_path argv detected =
     (case detected of
        Inl e \<Rightarrow> False
      | Inr gpus \<Rightarrow>
          gpus \<noteq> [] \<and>
          (length argv = 1 \<or>
           length argv = 2 \<and>
             (argv ! 1 \<in> keyword_args \<or>
              (case stoi (argv ! 1) of
                 Inl e \<Rightarrow> False
               | Inr i \<Rightarrow> 0 \<le> i \<and> i < int (length gpus)))))"

subsection \<open>Sample hosts\<close>

definition amd_card :: drm_entry where
  "amd_card =
     \<lparr>card_name = ''card0'', uevent = Some [''DRIVER=amdgpu'', ''PCI_ID=1002:6798''],
      label_file = None, product_name_file = None, model_file = None\<rparr>"

definition connector :: drm_entry where
  "connector =
     \<lparr>card_name = ''card0-HDMI-A-1'', uevent = None,
      label_file = None, product_name_file = None, model_file = None\<rparr>"

definition bare_card :: drm_entry where
  \<comment> \<open>A card whose \<open>device/uevent\<close> does not exist.\<close>
  "bare_card =
     \<lparr>card_name = ''card1'', uevent = None,
      label_file = None, product_name_file = None, model_file = None\<rparr>"

definition sample_fs :: linux_fs where
  "sample_fs = \<lparr>drm = Some [amd_card, connector, bare_card], nvidia_version = None\<rparr>"

definition blank_uevent_card :: drm_entry where
  \<comment> \<open>A card whose \<open>device/uevent\<close> exists and has no \<open>PCI_ID\<close> line.\<close>
  "blank_uevent_card =
     \<lparr>card_name = ''card2'', uevent = Some [''DRIVER=vgem''],
      label_file = None, product_name_file = None, model_file = None\<rparr>"

definition unnamed_adapter :: win_device where
  \<comment> \<open>A display adapter for which the device-description call fails.\<close>
  "unnamed_adapter =
     \<lparr>device_desc = None, mfg = Some ''Intel Corporation'',
      driver = None, hardware_id = Some (''PCI'' @ [CHR 0x5C] @ ''VEN_8086&DEV_3E92'')\<rparr>"

section \<open>Properties of the enumerators\<close>

lemma read_uevent_index:
  "index (read_uevent f gpu) = index gpu \<and> is_active (read_uevent f gpu) = is_active gpu"
  by (simp add: read_uevent_def split: option.splits prod.splits)

lemma resolve_name_index:
  "index (resolve_name e gpu) = index gpu \<and> is_active (resolve_name e gpu) = is_active gpu"
  by (simp add: resolve_name_def split: option.splits)

lemma read_driver_version_index:
  "index (read_driver_version f gpu) = index gpu
   \<and> is_active (read_driver_version f gpu) = is_active gpu"
  by (simp add: read_driver_version_def split: option.splits)

lemma linux_gpu_index: "index (linux_gpu fs e k) = k"
  by (simp add: linux_gpu_def read_driver_version_index resolve_name_index read_uevent_index
        new_gpu_def)

lemma linux_gpu_active: "is_active (linux_gpu fs e k) = (k = 0)"
  by (simp add: linux_gpu_def read_driver_version_index resolve_name_index read_uevent_index
        new_gpu_def)

lemma windows_gpu_index: "index (windows_gpu d k) = k"
  by (simp add: windows_gpu_def new_gpu_def Let_def split: option.splits)

lemma windows_gpu_active: "is_active (windows_gpu d k) = (k = 0)"
  by (simp add: windows_gpu_def new_gpu_def Let_def split: option.splits)

text \<open>
  The loops in closed form: the records are built from the cards (the devices) in
  order, the \<open>i\<close>-th one with the counter value \<open>i\<close>.
\<close>

lemma scan_drm_enumerate:
  "scan_drm fs es (int n) gpus =
     gpus @ map (\<lambda>(i, e). linux_gpu fs e (int i)) (enumerate n (cards es))"
proof (induction es arbitrary: n gpus)
  case Nil
  show ?case by (simp add: cards_def)
next
  case (Cons e es)
  have step: "int n + 1 = int (Suc n)" by simp
  show ?case
  proof (cases "is_card (card_name e)")
    case True
    then show ?thesis
      using Cons.IH [of "Suc n" "gpus @ [linux_gpu fs e (int n)]"]
      by (simp add: cards_def step del: of_nat_Suc)
  next
    case False
    then show ?thesis using Cons.IH [of n gpus] by (simp add: cards_def)
  qed
qed

lemma scan_devices_enumerate:
  "scan_devices ds (int n) gpus =
     gpus @ map (\<lambda>(i, d). windows_gpu d (int i)) (enumerate n ds)"
proof (induction ds arbitrary: n gpus)
  case Nil
  show ?case by simp
next
  case (Cons d ds)
  have step: "int n + 1 = int (Suc n)" by simp
  show ?case
    using Cons.IH [of "Suc n" "gpus @ [windows_gpu d (int n)]"]
    by (simp add: step del: of_nat_Suc)
qed

lemma detect_gpus_linux_enumerate:
  "detect_gpus_linux fs =
     (case drm fs of
        None \<Rightarrow> []
      | Some es \<Rightarrow> map (\<lambda>(i, e). linux_gpu fs e (int i)) (enumerate 0 (cards es)))"
  using scan_drm_enumerate [of fs _ 0 "[]"]
  by (simp add: detect_gpus_linux_def split: option.splits)

lemma detect_gpus_windows_enumerate:
  "detect_gpus_windows s =
     (case s of
        None \<Rightarrow> []
      | Some ds \<Rightarrow> map (\<lambda>(i, d). windows_gpu d (int i)) (enumerate 0 ds))"
  using scan_devices_enumerate [of _ 0 "[]"]
  by (simp add: detect_gpus_windows_def split: option.splits)

lemma detect_gpus_linux_nth:
  assumes "drm fs = Some es" and "i < length (cards es)"
  shows "detect_gpus_linux fs ! i = linux_gpu fs (cards es ! i) (int i)"
  using assms by (simp add: detect_gpus_linux_enumerate nth_enumerate_eq)

lemma detect_gpus_windows_nth:
  assumes "i < length ds"
  shows "detect_gpus_windows (Some ds) ! i = windows_gpu (ds ! i) (int i)"
  using assms by (simp add: detect_gpus_windows_enumerate nth_enumerate_eq)

lemma map_index_enumerate:
  assumes "\<And>i x. index (f i x) = int i"
  shows "map index (map (\<lambda>(i, x). f i x) (enumerate 0 xs)) = map int [0..<length xs]"
  by (rule nth_equalityI) (simp_all add: assms nth_enumerate_eq)

lemma detect_gpus_index: "map index (detect_gpus h) = map int [0..<length (detect_gpus h)]"
proof (cases h)
  case (Linux fs)
  show ?thesis
  proof (cases "drm fs")
    case None
    with Linux show ?thesis by (simp add: detect_gpus_def detect_gpus_linux_def)
  next
    case (Some es)
    have "map index (map (\<lambda>(i, e). linux_gpu fs e (int i)) (enumerate 0 (cards es)))
          = map int [0..<length (cards es)]"
      by (rule map_index_enumerate) (simp add: linux_gpu_index)
    with Linux Some show ?thesis
      by (simp add: detect_gpus_def detect_gpus_linux_enumerate)
  qed
next
  case (Windows s)
  show ?thesis
  proof (cases s)
    case None
    with Windows show ?thesis by (simp add: detect_gpus_def detect_gpus_windows_def)
  next
    case (Some ds)
    have "map index (map (\<lambda>(i, d). windows_gpu d (int i)) (enumerate 0 ds))
          = map int [0..<length ds]"
      by (rule map_index_enumerate) (simp add: windows_gpu_index)
    with Windows Some show ?thesis
      by (simp add: detect_gpus_def detect_gpus_windows_enumerate)
  qed
next
  case MacOS
  then show ?thesis by (simp add: detect_gpus_def detect_gpus_macos_def)
next
  case Other
  then show ?thesis by (simp add: detect_gpus_def)
qed

lemma detect_gpus_active: "g \<in> set (detect_gpus h) \<Longrightarrow> is_active g = (index g = 0)"
proof (cases h)
  case (Linux fs)
  assume "g \<in> set (detect_gpus h)"
  with Linux show ?thesis
    by (auto simp: detect_gpus_def detect_gpus_linux_enumerate linux_gpu_index linux_gpu_active
             split: option.splits)
next
  case (Windows s)
  assume "g \<in> set (detect_gpus h)"
  with Windows show ?thesis
    by (auto simp: detect_gpus_def detect_gpus_windows_enumerate windows_gpu_index
                   windows_gpu_active
             split: option.splits)
next
  case MacOS
  assume "g \<in> set (detect_gpus h)"
  with MacOS show ?thesis by (simp add: detect_gpus_def detect_gpus_macos_def)
next
  case Other
  assume "g \<in> set (detect_gpus h)"
  with Other show ?thesis by (simp add: detect_gpus_def)
qed

lemma filter_index_zero:
  assumes idx: "map f xs = map int [0..<length xs]" and ne: "xs \<noteq> []"
  shows "filter (\<lambda>x. f x = 0) xs = [hd xs]"
proof -
  obtain x rest where xs: "xs = x # rest" using ne by (cases xs) auto
  have nth: "f (xs ! i) = int i" if "i < length xs" for i
  proof -
    have "map f xs ! i = map int [0..<length xs] ! i" using idx by simp
    with that show ?thesis by simp
  qed
  have "f x = 0" using nth [of 0] xs by simp
  moreover have "f r \<noteq> 0" if "r \<in> set rest" for r
  proof -
    from that obtain j where j: "j < length rest" "rest ! j = r"
      by (auto simp: in_set_conv_nth)
    then have "f r = int (Suc j)" using nth [of "Suc j"] xs by simp
    then show ?thesis by simp
  qed
  ultimately show ?thesis using xs by (simp add: filter_empty_conv)
qed

text \<open>
  C5. In every enumeration result the \<open>index\<close> fields, read in encounter order, are
  \<open>0, 1, \<dots>, N - 1\<close>: the contiguous set with no duplicate, the first record carrying 0.
  This holds for the Linux, Windows and macOS enumerators and for the empty result of
  any other platform.
\<close>

theorem indices_contiguous:
  "map index (detect_gpus h) = map int [0..<length (detect_gpus h)]"
  by (rule detect_gpus_index)

text \<open>
  C4. In every enumeration result with at least one record, exactly one record has
  \<open>is_active\<close> set, and it is the first one, whose index is 0. No enumerator
  overrides the convention.
\<close>

theorem one_active_gpu:
  "detect_gpus h \<noteq> [] \<Longrightarrow>
     filter is_active (detect_gpus h) = [hd (detect_gpus h)] \<and> index (hd (detect_gpus h)) = 0"
proof -
  assume ne: "detect_gpus h \<noteq> []"
  have "filter is_active (detect_gpus h) = filter (\<lambda>g. index g = 0) (detect_gpus h)"
    by (rule filter_cong) (simp_all add: detect_gpus_active)
  also have "\<dots> = [hd (detect_gpus h)]"
    using detect_gpus_index ne by (rule filter_index_zero)
  finally have a: "filter is_active (detect_gpus h) = [hd (detect_gpus h)]" .
  have "map index (detect_gpus h) ! 0 = map int [0..<length (detect_gpus h)] ! 0"
    using detect_gpus_index by simp
  then have "index (hd (detect_gpus h)) = 0" using ne by (simp add: hd_conv_nth)
  with a show ?thesis by simp
qed

theorem one_active_gpu_witness:
  "detect_gpus (Linux sample_fs) \<noteq> []
   \<and> length (detect_gpus (Linux sample_fs)) = 2
   \<and> filter is_active (detect_gpus (Linux sample_fs)) = [hd (detect_gpus (Linux sample_fs))]
   \<and> index (hd (detect_gpus (Linux sample_fs))) = 0"
proof -
  have n: "length (detect_gpus (Linux sample_fs)) = 2" by code_simp
  then have ne: "detect_gpus (Linux sample_fs) \<noteq> []" by auto
  from one_active_gpu [OF ne] n ne show ?thesis by simp
qed

section \<open>Vendor lookup is the table lookup\<close>

lemma strip_0x_eq:
  assumes "\<not> prefix ''0x'' k"
  shows "(strip_0x s = k) = (s = ''0x'' @ k \<or> s = k)"
proof (cases "prefix ''0x'' s")
  case True
  then obtain r where s: "s = ''0x'' @ r" by (auto simp: prefix_def)
  with assms show ?thesis by (auto simp: strip_0x_def)
next
  case False
  with assms show ?thesis by (auto simp: strip_0x_def)
qed

lemma vendor_table_strip:
  "vendor_table (strip_0x t) =
     (if t = ''0x10de'' \<or> t = ''10de'' then Some ''NVIDIA''
      else if t = ''0x1002'' \<or> t = ''1002'' then Some ''AMD''
      else if t = ''0x8086'' \<or> t = ''8086'' then Some ''Intel''
      else None)"
proof -
  have a: "(strip_0x t = ''10de'') = (t = ''0x10de'' \<or> t = ''10de'')"
    using strip_0x_eq [of "''10de''" t] by simp
  have b: "(strip_0x t = ''1002'') = (t = ''0x1002'' \<or> t = ''1002'')"
    using strip_0x_eq [of "''1002''" t] by simp
  have c: "(strip_0x t = ''8086'') = (t = ''0x8086'' \<or> t = ''8086'')"
    using strip_0x_eq [of "''8086''" t] by simp
  have "vendor_table k =
     (if k = ''10de'' then Some ''NVIDIA''
      else if k = ''1002'' then Some ''AMD''
      else if k = ''8086'' then Some ''Intel''
      else None)" for k
    by (simp add: vendor_table_def)
  then show ?thesis by (simp only: a b c)
qed

lemma get_vendor_name_in_names: "get_vendor_name s \<in> vendor_names"
  by (simp add: get_vendor_name_def vendor_names_def Let_def)

text \<open>
  C6. \<open>get_vendor_name\<close> is the lookup the specification describes: the identifier is
  lower-cased, one leading \<open>0x\<close> (so also \<open>0X\<close>) is dropped, and the rest is looked up in
  the table \<open>10de \<mapsto> NVIDIA, 1002 \<mapsto> AMD, 8086 \<mapsto> Intel\<close>; every other string gives
  \<open>Unknown\<close>. In particular \<open>0x10DE\<close>, \<open>10de\<close> and \<open>0X10DE\<close> all give \<open>NVIDIA\<close>.
\<close>

theorem get_vendor_name_lookup:
  "get_vendor_name s = vendor_lookup_spec s
   \<and> get_vendor_name ''0x10DE'' = ''NVIDIA''
   \<and> get_vendor_name ''10de'' = ''NVIDIA''
   \<and> get_vendor_name ''0X10DE'' = ''NVIDIA''"
proof -
  have "get_vendor_name s = vendor_lookup_spec s"
    unfolding get_vendor_name_def vendor_lookup_spec_def Let_def vendor_table_strip
    by (simp only: option.case if_distrib [of "case_option _ _"] if_True if_False
          split: if_splits)
  moreover have "get_vendor_name ''0x10DE'' = ''NVIDIA''" by code_simp
  moreover have "get_vendor_name ''10de'' = ''NVIDIA''" by code_simp
  moreover have "get_vendor_name ''0X10DE'' = ''NVIDIA''" by code_simp
  ultimately show ?thesis by simp
qed

section \<open>Vendor and name of a record\<close>

lemma read_uevent_vendor:
  "uevent e \<noteq> None \<Longrightarrow> vendor (read_uevent (uevent e) gpu) \<in> vendor_names"
  by (auto simp: read_uevent_def get_vendor_name_in_names split: option.splits prod.splits)

lemma resolve_name_fields:
  "vendor (resolve_name e gpu) = vendor gpu \<and> pci_id (resolve_name e gpu) = pci_id gpu"
  by (simp add: resolve_name_def split: option.splits)

lemma read_driver_version_fields:
  "vendor (read_driver_version f gpu) = vendor gpu
   \<and> pci_id (read_driver_version f gpu) = pci_id gpu
   \<and> name (read_driver_version f gpu) = name gpu"
  by (simp add: read_driver_version_def split: option.splits)

lemma linux_gpu_vendor:
  "uevent e \<noteq> None \<Longrightarrow> vendor (linux_gpu fs e k) \<in> vendor_names"
  by (simp add: linux_gpu_def read_driver_version_fields resolve_name_fields read_uevent_vendor)

lemma linux_gpu_fallback:
  assumes "find_name (name_paths e) = None"
  shows "name (linux_gpu fs e k) = fallback_name (linux_gpu fs e k)"
  using assms
  by (simp add: linux_gpu_def read_driver_version_fields resolve_name_def fallback_name_def)

lemma fold_uevent_no_pci:
  "\<forall>l\<in>set lines. find_str ''PCI_ID='' l \<noteq> Some 0 \<Longrightarrow> fold uevent_line lines st = st"
  by (induction lines arbitrary: st) (auto simp: uevent_line_def split: prod.splits)

lemma get_vendor_name_empty: "get_vendor_name [] = ''Unknown''"
  by (simp add: get_vendor_name_def)

lemma linux_gpu_vendor_unknown:
  assumes "uevent e = Some lines" and "\<forall>l\<in>set lines. find_str ''PCI_ID='' l \<noteq> Some 0"
  shows "vendor (linux_gpu fs e k) = ''Unknown''"
  using assms
  by (simp add: linux_gpu_def read_driver_version_fields resolve_name_fields read_uevent_def
        fold_uevent_no_pci get_vendor_name_empty new_gpu_def)

text \<open>
  C1. The claim is that every record has a vendor among NVIDIA, AMD, Intel and Unknown,
  never empty, also when the \<open>uevent\<close> file of the device is absent. The Linux
  enumerator does not do that: \<open>gpu.vendor\<close> is assigned at line 122, inside the
  \<open>if (fs::exists(uevent_path))\<close> of line 103, so the record of a card without \<open>uevent\<close>
  keeps the empty vendor of its construction (and gets the name \<open> GPU\<close>). The sibling
  paths do give \<open>Unknown\<close>: a card whose \<open>uevent\<close> exists without a \<open>PCI_ID\<close> line, and
  the macOS placeholder.
\<close>

theorem vendor_empty_without_uevent:
  "uevent bare_card = None
   \<and> detect_gpus (Linux sample_fs) ! 1 =
       \<lparr>name = '' GPU'', vendor = [], driver_version = [], pci_id = [],
        index = 1, is_active = False\<rparr>
   \<and> vendor (detect_gpus (Linux sample_fs) ! 1) \<notin> {''NVIDIA'', ''AMD'', ''Intel'', ''Unknown''}
   \<and> vendor (hd (detect_gpus (Linux \<lparr>drm = Some [blank_uevent_card], nvidia_version = None\<rparr>)))
       = ''Unknown''
   \<and> map vendor (detect_gpus MacOS) = [''Unknown'']"
proof -
  have a: "uevent bare_card = None" by (simp add: bare_card_def)
  have b: "detect_gpus (Linux sample_fs) ! 1 =
       \<lparr>name = '' GPU'', vendor = [], driver_version = [], pci_id = [],
        index = 1, is_active = False\<rparr>" by code_simp
  have c: "vendor (hd (detect_gpus (Linux \<lparr>drm = Some [blank_uevent_card], nvidia_version = None\<rparr>)))
       = ''Unknown''" by code_simp
  have d: "map vendor (detect_gpus MacOS) = [''Unknown'']" by code_simp
  have v: "vendor (detect_gpus (Linux sample_fs) ! 1) = []" by code_simp
  have e: "vendor (detect_gpus (Linux sample_fs) ! 1)
                \<notin> {''NVIDIA'', ''AMD'', ''Intel'', ''Unknown''}"
    unfolding v by simp
  from a b e c d show ?thesis by blast
qed

text \<open>
  C7, as the code has it. The Linux enumerator is the one that probes candidate name
  files and synthesizes a name. For every record it produces from a card none of whose
  name files gives a non-empty first line, the name is \<open><vendor> GPU [<pci_id>]\<close> when
  \<open>pci_id\<close> is not empty and \<open><vendor> GPU\<close> otherwise, with the vendor and the PCI id of
  that record. The card of \<open>sample_fs\<close> with \<open>PCI_ID=1002:6798\<close> gets the vendor AMD and
  the name \<open>AMD GPU [1002:6798]\<close>.
\<close>

theorem name_fallback:
  assumes "drm fs = Some es" and "i < length (cards es)"
    and "find_name (name_paths (cards es ! i)) = None"
    and "gpu = detect_gpus_linux fs ! i"
  shows "name gpu =
           (if pci_id gpu \<noteq> [] then vendor gpu @ '' GPU ['' @ pci_id gpu @ '']''
            else vendor gpu @ '' GPU'')"
proof -
  have "gpu = linux_gpu fs (cards es ! i) (int i)"
    using assms(1,2,4) by (simp add: detect_gpus_linux_nth)
  then have "name gpu = fallback_name gpu"
    using assms(3) by (simp add: linux_gpu_fallback)
  then show ?thesis by (simp add: fallback_name_def)
qed

theorem name_fallback_witness:
  "drm sample_fs = Some [amd_card, connector, bare_card]
   \<and> 0 < length (cards [amd_card, connector, bare_card])
   \<and> find_name (name_paths (cards [amd_card, connector, bare_card] ! 0)) = None
   \<and> vendor (detect_gpus_linux sample_fs ! 0) = ''AMD''
   \<and> pci_id (detect_gpus_linux sample_fs ! 0) = ''1002:6798''
   \<and> name (detect_gpus_linux sample_fs ! 0) = ''AMD GPU [1002:6798]''"
proof -
  have a: "drm sample_fs = Some [amd_card, connector, bare_card]" by (simp add: sample_fs_def)
  have b: "0 < length (cards [amd_card, connector, bare_card])" by code_simp
  have c: "find_name (name_paths (cards [amd_card, connector, bare_card] ! 0)) = None"
    by code_simp
  have v: "vendor (detect_gpus_linux sample_fs ! 0) = ''AMD''" by code_simp
  have p: "pci_id (detect_gpus_linux sample_fs ! 0) = ''1002:6798''" by code_simp
  from name_fallback [OF a b c refl] show ?thesis
    using a b c by (simp add: v p)
qed

text \<open>
  C7 as stated fails. The Windows enumerator has one name source, the device
  description, and no fallback (lines 205 to 210): when that call fails the name stays
  empty, whatever the vendor and the PCI id are.
\<close>

theorem name_not_synthesized_on_windows:
  "device_desc unnamed_adapter = None
   \<and> detect_gpus (Windows (Some [unnamed_adapter])) =
       [\<lparr>name = [], vendor = ''Intel Corporation'', driver_version = [],
         pci_id = ''8086:3E92'', index = 0, is_active = True\<rparr>]
   \<and> name (hd (detect_gpus (Windows (Some [unnamed_adapter]))))
       \<noteq> ''Intel Corporation GPU [8086:3E92]''"
proof -
  have a: "device_desc unnamed_adapter = None" by (simp add: unnamed_adapter_def)
  have b: "detect_gpus (Windows (Some [unnamed_adapter])) =
       [\<lparr>name = [], vendor = ''Intel Corporation'', driver_version = [],
         pci_id = ''8086:3E92'', index = 0, is_active = True\<rparr>]" by code_simp
  show ?thesis using a by (simp add: b)
qed

section \<open>Integer parsing\<close>

lemma stoi_keywords: "arg \<in> keyword_args \<Longrightarrow> stoi arg = Inl Invalid_argument"
proof -
  have "stoi ''help'' = Inl Invalid_argument" by code_simp
  moreover have "stoi ''--help'' = Inl Invalid_argument" by code_simp
  moreover have "stoi ''-h'' = Inl Invalid_argument" by code_simp
  moreover have "stoi ''all'' = Inl Invalid_argument" by code_simp
  moreover assume "arg \<in> keyword_args"
  ultimately show ?thesis by (auto simp: keyword_args_def)
qed

lemma isdigit_not_space: "isdigit c \<Longrightarrow> \<not> isspace c"
  by (auto simp: isdigit_def isspace_def)

lemma isdigit_not_sign: "isdigit c \<Longrightarrow> c \<noteq> CHR ''-'' \<and> c \<noteq> CHR ''+''"
  by (auto simp: isdigit_def)

lemma sign_not_space: "\<not> isspace (CHR ''-'')" "\<not> isspace (CHR ''+'')"
  by (simp_all add: isspace_def)

lemma takeWhile_digits: "\<forall>c\<in>set ds. isdigit c \<Longrightarrow> takeWhile isdigit ds = ds"
  by (simp add: takeWhile_eq_all_conv)

text \<open>
  On a numeral, that is digits after at most one sign, \<open>stoi\<close> returns the value when it
  fits an \<open>int\<close> and raises \<open>out_of_range\<close> otherwise. On the four keywords it raises
  \<open>invalid_argument\<close>, so an argument that parses is never a keyword.
\<close>

lemma stoi_numeral:
  assumes ne: "ds \<noteq> []" and dig: "\<forall>c\<in>set ds. isdigit c"
    and sg: "sg = [] \<or> sg = ''+'' \<or> sg = ''-''"
  shows "stoi (sg @ ds) =
           (let v = (if sg = ''-'' then - digits_value ds else digits_value ds)
            in if v < INT_MIN \<or> INT_MAX < v then Inl Out_of_range else Inr v)"
proof -
  obtain d rest where ds: "ds = d # rest" using ne by (cases ds) auto
  have d: "isdigit d" using dig ds by simp
  have tw: "takeWhile isdigit (d # rest) = d # rest"
    using dig ds takeWhile_digits [of ds] by simp
  from sg consider "sg = []" | "sg = ''+''" | "sg = ''-''" by blast
  then show ?thesis
  proof cases
    case 1
    have dw: "dropWhile isspace (d # rest) = d # rest" using d by (simp add: isdigit_not_space)
    show ?thesis
      unfolding stoi_def Let_def 1 ds append_Nil dw
      using isdigit_not_sign [OF d] by (simp add: tw del: takeWhile.simps)
  next
    case 2
    have dw: "dropWhile isspace (''+'' @ d # rest) = ''+'' @ d # rest" by (simp add: sign_not_space)
    show ?thesis
      unfolding stoi_def Let_def 2 ds dw
      by (simp add: tw del: takeWhile.simps)
  next
    case 3
    have dw: "dropWhile isspace (''-'' @ d # rest) = ''-'' @ d # rest" by (simp add: sign_not_space)
    show ?thesis
      unfolding stoi_def Let_def 3 ds dw
      by (simp add: tw del: takeWhile.simps)
  qed
qed

text \<open>
  \<open>digits_value\<close> reads a digit string as the decimal numeral it is: it inverts the
  printing of unsigned values.
\<close>

lemma digits_value_snoc:
  "digits_value (ds @ [c]) = 10 * digits_value ds + (int (of_char c) - 48)"
  by (simp add: digits_value_def)

lemma digits_value_string_of_nat: "digits_value (string_of_nat n) = int n"
proof (induction n rule: string_of_nat.induct)
  case (1 n)
  show ?case
  proof (cases "n < 10")
    case True
    have "digits_value [char_of (48 + n)] = int ((48 + n) mod 256) - 48"
      by (simp add: digits_value_def)
    with True show ?thesis by (subst string_of_nat.simps) simp
  next
    case False
    then have ih: "digits_value (string_of_nat (n div 10)) = int (n div 10)"
      using 1 by simp
    have "(48 + n mod 10) mod 256 = 48 + n mod 10"
      by (rule mod_less) (simp add: less_le_trans [OF add_strict_left_mono [OF mod_less_divisor [of 10 n]]])
    moreover have "10 * int (n div 10) + int (n mod 10) = int n"
    proof -
      have "int (10 * (n div 10) + n mod 10) = int n" by simp
      then show ?thesis by (simp only: of_nat_add of_nat_mult of_nat_numeral)
    qed
    ultimately show ?thesis using False ih
      by (subst string_of_nat.simps) (simp add: digits_value_snoc)
  qed
qed

section \<open>Properties of the entry point\<close>

lemma plugin_run_single:
  assumes "gpus \<noteq> []" and "arg \<notin> keyword_args"
  shows "plugin_run [prog, arg] (Inr gpus) = show_index arg gpus"
  using assms by (simp add: plugin_run_def keyword_args_def)

lemma errors_nonempty:
  "no_gpus_warning \<noteq> []" "out_of_range_error i n \<noteq> []" "invalid_argument_error arg \<noteq> []"
  "too_many_arguments_error \<noteq> []" "exception_error e \<noteq> []"
  by (simp_all add: no_gpus_warning_def out_of_range_error_def invalid_argument_error_def
        too_many_arguments_error_def exception_error_def Color_YELLOW_def split: exn.splits)

lemma show_index_code:
  "exit_code (show_index arg gpus) =
     (case stoi arg of Inl e \<Rightarrow> 1 | Inr i \<Rightarrow> if 0 \<le> i \<and> i < int (length gpus) then 0 else 1)"
  by (auto simp: show_index_def success_def failure_def split: sum.splits)

lemma show_index_stderr:
  "(stderr (show_index arg gpus) = []) = (exit_code (show_index arg gpus) = 0)"
  by (auto simp: show_index_def success_def failure_def errors_nonempty split: sum.splits)

lemma plugin_run_code:
  "exit_code (plugin_run argv detected) = (if success_path argv detected then 0 else 1)"
proof (cases detected)
  case (Inl e)
  then show ?thesis by (simp add: plugin_run_def success_path_def failure_def)
next
  case (Inr gpus)
  show ?thesis
  proof (cases "gpus \<noteq> [] \<and> length argv = 2 \<and> argv ! 1 \<notin> keyword_args")
    case True
    with Inr have "plugin_run argv detected = show_index (argv ! 1) gpus"
      by (simp add: plugin_run_def keyword_args_def)
    with True Inr show ?thesis
      by (simp add: show_index_code success_path_def split: sum.splits)
  next
    case False
    with Inr show ?thesis
      by (auto simp: plugin_run_def success_path_def success_def failure_def keyword_args_def
               split: option.splits)
  qed
qed

lemma plugin_run_stderr:
  "(stderr (plugin_run argv detected) = []) = (exit_code (plugin_run argv detected) = 0)"
proof (cases detected)
  case (Inl e)
  then show ?thesis by (simp add: plugin_run_def failure_def errors_nonempty)
next
  case (Inr gpus)
  show ?thesis
  proof (cases "gpus \<noteq> [] \<and> length argv = 2 \<and> argv ! 1 \<notin> keyword_args")
    case True
    with Inr have "plugin_run argv detected = show_index (argv ! 1) gpus"
      by (simp add: plugin_run_def keyword_args_def)
    then show ?thesis by (simp add: show_index_stderr)
  next
    case False
    with Inr show ?thesis
      by (auto simp: plugin_run_def success_def failure_def keyword_args_def errors_nonempty
               split: option.splits)
  qed
qed

text \<open>
  C3. Whatever the arguments are (none, \<open>help\<close>, too many, \<dots>), a run whose enumeration
  yields no record writes the warning with its three plausible causes (no GPU present,
  drivers not installed, insufficient permissions) to the error stream, writes nothing to
  the output stream and returns 1: the arguments are not looked at.
\<close>

theorem no_gpus_returns_1:
  "plugin_run argv (Inr []) =
     \<lparr>stdout = [],
      stderr = CHR 0x1B # ''[33mWarning: No GPUs detected.'' @ CHR 0x1B # ''[0m'' @ CHR 0x0A #
               ''This could mean:'' @ CHR 0x0A #
               ''  - No GPU is present in the system'' @ CHR 0x0A #
               ''  - GPU drivers are not installed'' @ CHR 0x0A #
               ''  - Insufficient permissions to access GPU information'' @ [CHR 0x0A],
      exit_code = 1\<rparr>"
  by (simp add: plugin_run_def failure_def no_gpus_warning_def Color_YELLOW_def Color_RESET_def
        nl_def)

text \<open>
  C9. For every argument list and every outcome of the enumeration, an exception
  included, \<open>plugin_run\<close> returns 0 or 1. It returns 0 exactly on the success paths (at
  least one record and no argument, a keyword, or an index in range), and it returns 1
  exactly when it writes a diagnostic to the error stream.
\<close>

theorem exit_code_0_or_1:
  "exit_code (plugin_run argv detected) \<in> {0, 1}
   \<and> (exit_code (plugin_run argv detected) = 0) = success_path argv detected
   \<and> (exit_code (plugin_run argv detected) = 1) = (stderr (plugin_run argv detected) \<noteq> [])"
  by (simp add: plugin_run_stderr) (simp add: plugin_run_code)

lemma rule_line: "replicate 50 (CHR ''='') = ''==================================================''"
  by code_simp

text \<open>
  C8. With at least one record and a single argument that \<open>std::stoi\<close> parses to a
  non-negative integer \<open>i\<close>: when \<open>i < count\<close> the run displays record \<open>i\<close> in the verbose
  form and returns 0; when \<open>i \<ge> count\<close> it writes the out-of-range diagnostic, which
  names the range \<open>0-(count - 1)\<close>, to the error stream and returns 1. With two records
  the argument \<open>5\<close> gives the range \<open>0-1\<close>.
\<close>

theorem index_argument:
  assumes "gpus \<noteq> []" and "stoi arg = Inr i" and "0 \<le> i"
  shows "plugin_run [prog, arg] (Inr gpus) =
           (if i < int (length gpus) then
              (let gpu = gpus ! nat i in
               \<lparr>stdout =
                  CHR 0x0A # CHR 0x1B # ''[1m'' @ CHR 0x1B # ''[36mGPU '' @ string_of_int (index gpu)
                  @ (if is_active gpu then '' (Active)'' else [])
                  @ CHR 0x1B # ''[0m'' @ CHR 0x0A #
                  ''=================================================='' @ CHR 0x0A #
                  ''  '' @ CHR 0x1B # ''[32mName: '' @ CHR 0x1B # ''[0m'' @ name gpu @ CHR 0x0A #
                  ''  '' @ CHR 0x1B # ''[32mVendor: '' @ CHR 0x1B # ''[0m'' @ vendor gpu @ CHR 0x0A #
                  (if driver_version gpu \<noteq> [] \<and> driver_version gpu \<noteq> ''N/A''
                   then ''  '' @ CHR 0x1B # ''[32mDriver Version: '' @ CHR 0x1B # ''[0m''
                        @ driver_version gpu @ [CHR 0x0A]
                   else [])
                  @ (if pci_id gpu \<noteq> [] \<and> pci_id gpu \<noteq> ''N/A''
                     then ''  '' @ CHR 0x1B # ''[32mPCI ID: '' @ CHR 0x1B # ''[0m''
                          @ pci_id gpu @ [CHR 0x0A]
                     else []),
                stderr = [], exit_code = 0\<rparr>)
            else
              \<lparr>stdout = [],
               stderr = CHR 0x1B # ''[33mError: GPU index '' @ string_of_int i @ '' out of range.''
                        @ CHR 0x1B # ''[0m'' @ CHR 0x0A #
                        ''Available GPUs: 0-'' @ string_of_nat (length gpus - 1) @ [CHR 0x0A],
               exit_code = 1\<rparr>)"
proof -
  have "arg \<notin> keyword_args" using stoi_keywords [of arg] assms(2) by auto
  with assms(1) have "plugin_run [prog, arg] (Inr gpus) = show_index arg gpus"
    by (rule plugin_run_single)
  with assms(2,3) show ?thesis
    by (simp add: show_index_def success_def failure_def out_of_range_error_def display_gpu_def
          print_header_def print_field_def Color_YELLOW_def Color_RESET_def Color_BOLD_def
          Color_CYAN_def Color_GREEN_def nl_def Let_def rule_line)
qed

theorem index_argument_witness:
  "detect_gpus (Linux sample_fs) \<noteq> []
   \<and> length (detect_gpus (Linux sample_fs)) = 2
   \<and> stoi ''0'' = Inr 0 \<and> stoi ''5'' = Inr 5
   \<and> plugin_run [''gpu'', ''0''] (Inr (detect_gpus (Linux sample_fs))) =
       \<lparr>stdout =
          CHR 0x0A # CHR 0x1B # ''[1m'' @ CHR 0x1B # ''[36mGPU 0 (Active)'' @ CHR 0x1B # ''[0m''
          @ CHR 0x0A #
          ''=================================================='' @ CHR 0x0A #
          ''  '' @ CHR 0x1B # ''[32mName: '' @ CHR 0x1B # ''[0mAMD GPU [1002:6798]'' @ CHR 0x0A #
          ''  '' @ CHR 0x1B # ''[32mVendor: '' @ CHR 0x1B # ''[0mAMD'' @ CHR 0x0A #
          ''  '' @ CHR 0x1B # ''[32mPCI ID: '' @ CHR 0x1B # ''[0m1002:6798'' @ [CHR 0x0A],
        stderr = [], exit_code = 0\<rparr>
   \<and> plugin_run [''gpu'', ''5''] (Inr (detect_gpus (Linux sample_fs))) =
       \<lparr>stdout = [],
        stderr = CHR 0x1B # ''[33mError: GPU index 5 out of range.'' @ CHR 0x1B # ''[0m''
                 @ CHR 0x0A # ''Available GPUs: 0-1'' @ [CHR 0x0A],
        exit_code = 1\<rparr>"
proof -
  have ne: "detect_gpus (Linux sample_fs) \<noteq> []" by code_simp
  have len: "length (detect_gpus (Linux sample_fs)) = 2" by code_simp
  have s0: "stoi ''0'' = Inr 0" by code_simp
  have s5: "stoi ''5'' = Inr 5" by code_simp
  have g0: "detect_gpus (Linux sample_fs) ! 0 =
              \<lparr>name = ''AMD GPU [1002:6798]'', vendor = ''AMD'', driver_version = [],
               pci_id = ''1002:6798'', index = 0, is_active = True\<rparr>" by code_simp
  have p0: "string_of_int 0 = ''0''" by code_simp
  have p5: "string_of_int 5 = ''5''" by code_simp
  have p1: "string_of_nat (Suc 0) = ''1''" by code_simp
  have "plugin_run [''gpu'', ''0''] (Inr (detect_gpus (Linux sample_fs))) =
       \<lparr>stdout =
          CHR 0x0A # CHR 0x1B # ''[1m'' @ CHR 0x1B # ''[36mGPU 0 (Active)'' @ CHR 0x1B # ''[0m''
          @ CHR 0x0A #
          ''=================================================='' @ CHR 0x0A #
          ''  '' @ CHR 0x1B # ''[32mName: '' @ CHR 0x1B # ''[0mAMD GPU [1002:6798]'' @ CHR 0x0A #
          ''  '' @ CHR 0x1B # ''[32mVendor: '' @ CHR 0x1B # ''[0mAMD'' @ CHR 0x0A #
          ''  '' @ CHR 0x1B # ''[32mPCI ID: '' @ CHR 0x1B # ''[0m1002:6798'' @ [CHR 0x0A],
        stderr = [], exit_code = 0\<rparr>"
    using index_argument [OF ne s0, of "''gpu''"] by (simp add: len g0 p0)
  moreover have "plugin_run [''gpu'', ''5''] (Inr (detect_gpus (Linux sample_fs))) =
       \<lparr>stdout = [],
        stderr = CHR 0x1B # ''[33mError: GPU index 5 out of range.'' @ CHR 0x1B # ''[0m''
                 @ CHR 0x0A # ''Available GPUs: 0-1'' @ [CHR 0x0A],
        exit_code = 1\<rparr>"
    using index_argument [OF ne s5, of "''gpu''"] by (simp add: len p5 p1)
  ultimately show ?thesis using ne len s0 s5 by simp
qed

text \<open>
  C2, as the code has it. With at least one record, a single argument that is not a
  keyword and that \<open>std::stoi\<close> rejects (no decimal digit after optional white space and
  one optional sign, or a value outside the range of \<open>int\<close>) makes the run write the
  invalid-argument diagnostic to the error stream and return 1.
\<close>

theorem invalid_argument_reported:
  assumes "gpus \<noteq> []" and "arg \<notin> keyword_args" and "stoi arg = Inl e"
  shows "plugin_run [prog, arg] (Inr gpus) =
           \<lparr>stdout = [], stderr = invalid_argument_error arg, exit_code = 1\<rparr>"
proof -
  from assms(1,2) have "plugin_run [prog, arg] (Inr gpus) = show_index arg gpus"
    by (rule plugin_run_single)
  with assms(3) show ?thesis by (simp add: show_index_def failure_def)
qed

theorem invalid_argument_reported_witness:
  "detect_gpus (Linux sample_fs) \<noteq> [] \<and> ''xyz'' \<notin> keyword_args
   \<and> stoi ''xyz'' = Inl Invalid_argument
   \<and> plugin_run [''gpu'', ''xyz''] (Inr (detect_gpus (Linux sample_fs))) =
       \<lparr>stdout = [],
        stderr = Color_YELLOW @ ''Error: Invalid argument '' @ [CHR 0x27] @ ''xyz'' @ [CHR 0x27]
                 @ ''.'' @ Color_RESET @ nl @ usage_hint,
        exit_code = 1\<rparr>"
proof -
  have ne: "detect_gpus (Linux sample_fs) \<noteq> []" by code_simp
  have k: "''xyz'' \<notin> keyword_args" by (simp add: keyword_args_def)
  have s: "stoi ''xyz'' = Inl Invalid_argument" by code_simp
  from invalid_argument_reported [OF ne k s, of "''gpu''"] ne k s
  show ?thesis by (simp add: invalid_argument_error_def)
qed

text \<open>
  C2 as stated fails. \<open>std::stoi\<close> reads \<open>-1\<close> as the integer \<open>-1\<close> and \<open>5abc\<close> as 5, so
  with two records both get the index-out-of-range diagnostic, not the invalid-argument
  one, and \<open>1abc\<close> displays record 1 and returns 0.
\<close>

theorem invalid_argument_not_reported:
  "plugin_run [''gpu'', ''-1''] (Inr (detect_gpus (Linux sample_fs))) =
       \<lparr>stdout = [],
        stderr = Color_YELLOW @ ''Error: GPU index -1 out of range.'' @ Color_RESET @ nl
                 @ ''Available GPUs: 0-1'' @ nl,
        exit_code = 1\<rparr>
   \<and> plugin_run [''gpu'', ''5abc''] (Inr (detect_gpus (Linux sample_fs))) =
       \<lparr>stdout = [],
        stderr = Color_YELLOW @ ''Error: GPU index 5 out of range.'' @ Color_RESET @ nl
                 @ ''Available GPUs: 0-1'' @ nl,
        exit_code = 1\<rparr>
   \<and> plugin_run [''gpu'', ''1abc''] (Inr (detect_gpus (Linux sample_fs))) =
       \<lparr>stdout = display_gpu (detect_gpus (Linux sample_fs) ! 1) False, stderr = [],
        exit_code = 0\<rparr>"
proof -
  have "plugin_run [''gpu'', ''-1''] (Inr (detect_gpus (Linux sample_fs))) =
       \<lparr>stdout = [],
        stderr = Color_YELLOW @ ''Error: GPU index -1 out of range.'' @ Color_RESET @ nl
                 @ ''Available GPUs: 0-1'' @ nl,
        exit_code = 1\<rparr>"
    by code_simp
  moreover have "plugin_run [''gpu'', ''5abc''] (Inr (detect_gpus (Linux sample_fs))) =
       \<lparr>stdout = [],
        stderr = Color_YELLOW @ ''Error: GPU index 5 out of range.'' @ Color_RESET @ nl
                 @ ''Available GPUs: 0-1'' @ nl,
        exit_code = 1\<rparr>"
    by code_simp
  moreover have "plugin_run [''gpu'', ''1abc''] (Inr (detect_gpus (Linux sample_fs))) =
       \<lparr>stdout = display_gpu (detect_gpus (Linux sample_fs) ! 1) False, stderr = [],
        exit_code = 0\<rparr>"
    by code_simp
  ultimately show ?thesis by simp
qed

text \<open>
  C10. With at least one record, a single argument that is a decimal numeral (digits,
  after an optional sign) whose value is outside the range of \<open>int\<close> makes \<open>std::stoi\<close>
  raise \<open>out_of_range\<close>; the run reports it with the invalid-argument diagnostic and
  returns 1, and that diagnostic is not the index-out-of-range one.
\<close>

theorem int_overflow_invalid_argument:
  assumes "gpus \<noteq> []" and "ds \<noteq> []" and "\<forall>c\<in>set ds. isdigit c"
    and "sg = [] \<or> sg = ''+'' \<or> sg = ''-''"
    and "v = (if sg = ''-'' then - digits_value ds else digits_value ds)"
    and "v < INT_MIN \<or> INT_MAX < v"
  shows "stoi (sg @ ds) = Inl Out_of_range
         \<and> plugin_run [prog, sg @ ds] (Inr gpus) =
             \<lparr>stdout = [],
              stderr = CHR 0x1B # ''[33mError: Invalid argument '' @ CHR 0x27 # sg @ ds
                       @ CHR 0x27 # ''.'' @ CHR 0x1B # ''[0m'' @ CHR 0x0A #
                       ''Use '' @ CHR 0x27 # ''whatsmy gpu help'' @ CHR 0x27 #
                       '' for usage information.'' @ [CHR 0x0A],
              exit_code = 1\<rparr>
         \<and> stderr (plugin_run [prog, sg @ ds] (Inr gpus))
             \<noteq> CHR 0x1B # ''[33mError: GPU index '' @ rest"
proof -
  have st: "stoi (sg @ ds) = Inl Out_of_range"
    using stoi_numeral [OF assms(2,3,4)] assms(5,6) by (simp add: Let_def)
  then have "sg @ ds \<notin> keyword_args" using stoi_keywords [of "sg @ ds"] by auto
  with assms(1) have "plugin_run [prog, sg @ ds] (Inr gpus) = show_index (sg @ ds) gpus"
    by (rule plugin_run_single)
  with st show ?thesis
    by (simp add: show_index_def failure_def invalid_argument_error_def usage_hint_def
          Color_YELLOW_def Color_RESET_def nl_def)
qed

theorem int_overflow_invalid_argument_witness:
  "detect_gpus (Linux sample_fs) \<noteq> []
   \<and> ''2147483648'' \<noteq> [] \<and> list_all isdigit ''2147483648''
   \<and> digits_value ''2147483648'' = 2147483648
   \<and> INT_MAX = 2147483647
   \<and> INT_MAX < digits_value ''2147483648''
   \<and> stoi ''2147483648'' = Inl Out_of_range
   \<and> plugin_run [''gpu'', ''2147483648''] (Inr (detect_gpus (Linux sample_fs))) =
       \<lparr>stdout = [],
        stderr = CHR 0x1B # ''[33mError: Invalid argument '' @ CHR 0x27 # ''2147483648''
                 @ CHR 0x27 # ''.'' @ CHR 0x1B # ''[0m'' @ CHR 0x0A #
                 ''Use '' @ CHR 0x27 # ''whatsmy gpu help'' @ CHR 0x27 #
                 '' for usage information.'' @ [CHR 0x0A],
        exit_code = 1\<rparr>
   \<and> stderr (plugin_run [''gpu'', ''2147483648''] (Inr (detect_gpus (Linux sample_fs))))
       \<noteq> CHR 0x1B # ''[33mError: GPU index 2147483648 out of range.'' @ CHR 0x1B # ''[0m''
          @ CHR 0x0A # ''Available GPUs: 0-1'' @ [CHR 0x0A]"
proof -
  have a: "detect_gpus (Linux sample_fs) \<noteq> []" by code_simp
  have b: "''2147483648'' \<noteq> []" by simp
  have c: "\<forall>c\<in>set ''2147483648''. isdigit c" by code_simp
  have d: "digits_value ''2147483648'' = 2147483648" by code_simp
  have e: "INT_MAX < digits_value ''2147483648''" by code_simp
  have f: "digits_value ''2147483648'' < INT_MIN \<or> INT_MAX < digits_value ''2147483648''"
    using e by simp
  have g: "digits_value ''2147483648'' =
             (if [] = ''-'' then - digits_value ''2147483648'' else digits_value ''2147483648'')"
    by simp
  have h: "[] = [] \<or> [] = ''+'' \<or> [] = ''-''" by simp
  from int_overflow_invalid_argument [OF a b c h g f, of "''gpu''"
              "''2147483648 out of range.'' @ CHR 0x1B # ''[0m'' @ CHR 0x0A # ''Available GPUs: 0-1'' @ [CHR 0x0A]"]
  show ?thesis using a c d e by (simp add: list_all_iff INT_MAX_def)
qed

end
